theory Spec2Isabelle
  imports Main "HOL-Library.Word" "HOL-Library.Sublist"
begin

section \<open>Python built-ins used by wav\_to\_header.py\<close>

text \<open>
  Binary file contents are lists of bytes; text (the generated header, console lines,
  file names) is \<open>string\<close>. The exceptions the packing script can meet here are a
  failed \<open>open\<close> and the end of input at the confirmation prompt.
\<close>

type_synonym byte = "8 word"

datatype error = FileNotFoundError | EOFError

text \<open>\<open>str(n)\<close> and \<open>f"{n}"\<close> for an integer: its decimal digits, with a leading minus sign.\<close>

definition digit_char :: "nat \<Rightarrow> char" where
  "digit_char d = ''0123456789'' ! d"

function py_str_nat :: "nat \<Rightarrow> string" where
  "py_str_nat n =
     (if n < 10 then [digit_char n] else py_str_nat (n div 10) @ [digit_char (n mod 10)])"
  by pat_completeness auto
termination
  by (relation "measure (\<lambda>n. n)") auto

definition py_str :: "int \<Rightarrow> string" where
  "py_str i = (if i < 0 then CHR ''-'' # py_str_nat (nat (- i)) else py_str_nat (nat i))"

text \<open>\<open>f"{n:,}"\<close>: the digits in groups of three from the right, separated by commas.\<close>

function group_thousands :: "string \<Rightarrow> string" where
  "group_thousands ds =
     (if length ds \<le> 3 then ds
      else group_thousands (take (length ds - 3) ds) @ '','' @ drop (length ds - 3) ds)"
  by pat_completeness auto
termination
  by (relation "measure length") auto

definition py_format_comma :: "int \<Rightarrow> string" where
  "py_format_comma i =
     (if i < 0 then CHR ''-'' # group_thousands (py_str_nat (nat (- i)))
      else group_thousands (py_str_nat (nat i)))"

text \<open>\<open>f"{s:12s}"\<close> pads on the right, \<open>f"{x:>6,}"\<close> on the left; neither truncates.\<close>

definition ljust :: "nat \<Rightarrow> string \<Rightarrow> string" where
  "ljust w s = s @ replicate (w - length s) CHR '' ''"

definition rjust :: "nat \<Rightarrow> string \<Rightarrow> string" where
  "rjust w s = replicate (w - length s) CHR '' '' @ s"

text \<open>\<open>f"0x{b:02X}"\<close> for a byte: two upper-case hexadecimal digits.\<close>

definition hex_char :: "nat \<Rightarrow> char" where
  "hex_char d = ''0123456789ABCDEF'' ! d"

definition format_02X :: "byte \<Rightarrow> string" where
  "format_02X b = [hex_char (unat b div 16), hex_char (unat b mod 16)]"

definition hex_literal :: "byte \<Rightarrow> string" where
  "hex_literal b = ''0x'' @ format_02X b"

text \<open>\<open>sep.join(xs)\<close>.\<close>

fun py_join :: "string \<Rightarrow> string list \<Rightarrow> string" where
  "py_join sep [] = []"
| "py_join sep [x] = x"
| "py_join sep (x # y # ys) = x @ sep @ py_join sep (y # ys)"

text \<open>\<open>range(start, stop, step)\<close> for a positive step.\<close>

function py_range :: "nat \<Rightarrow> nat \<Rightarrow> nat \<Rightarrow> nat list" where
  "py_range start stop step =
     (if 0 < step \<and> start < stop then start # py_range (start + step) stop step else [])"
  by pat_completeness auto
termination
  by (relation "measure (\<lambda>(start, stop, step). stop - start)") auto

text \<open>
  \<open>s.replace(old, new)\<close>: every non-overlapping occurrence, scanning from the left; an
  empty \<open>old\<close> matches before every character and at the end.
\<close>

function str_replace :: "string \<Rightarrow> string \<Rightarrow> string \<Rightarrow> string" where
  "str_replace old new s =
     (if old = [] then foldr (\<lambda>c r. new @ c # r) s new
      else if s = [] then []
      else if take (length old) s = old then new @ str_replace old new (drop (length old) s)
      else hd s # str_replace old new (tl s))"
  by pat_completeness auto
termination
  by (relation "measure (\<lambda>(old, new, s). length s)") auto

text \<open>
  \<open>s.lower()\<close>. On the bytes of a UTF-8 string only the ASCII capitals have a lower-case
  form that is an ASCII letter; every other byte is kept.
\<close>

definition lower_char :: "char \<Rightarrow> char" where
  "lower_char c =
     (if 65 \<le> (of_char c :: nat) \<and> (of_char c :: nat) \<le> 90
      then char_of ((of_char c :: nat) + 32) else c)"

definition py_lower :: "string \<Rightarrow> string" where
  "py_lower s = map lower_char s"

text \<open>\<open>os.path.join\<close> and \<open>os.path.basename\<close> with the POSIX separator.\<close>

definition path_join :: "string \<Rightarrow> string \<Rightarrow> string" where
  "path_join a b =
     (if b \<noteq> [] \<and> hd b = CHR ''/'' then b
      else if a = [] \<or> last a = CHR ''/'' then a @ b
      else a @ ''/'' @ b)"

definition basename :: "string \<Rightarrow> string" where
  "basename p = rev (takeWhile (\<lambda>c. c \<noteq> CHR ''/'') (rev p))"

section \<open>Configuration\<close>

definition AUDIO_DIR :: string where
  "AUDIO_DIR = ''audio_files''"

definition OUTPUT_FILE :: string where
  "OUTPUT_FILE = ''audio_data.h''"

definition wav_name :: "nat \<Rightarrow> string" where
  "wav_name i = py_str (int i) @ ''.wav''"

definition REQUIRED_FILES :: "string list" where
  "REQUIRED_FILES =
     map wav_name (py_range 1 10 1) @
     map wav_name (py_range 10 20 1) @
     map wav_name (py_range 20 100 10) @
     map wav_name (py_range 100 1000 100) @
     [''and.wav'']"

section \<open>The world the script runs in\<close>

text \<open>
  \<open>audio_dir_exists\<close> is \<open>os.path.exists(AUDIO_DIR)\<close>; \<open>files\<close> maps the path of every
  regular, readable file to its bytes (a path outside its domain does not exist);
  \<open>output_file\<close> is the text of \<open>OUTPUT_FILE\<close> in the working directory, \<open>None\<close> while it
  does not exist. The script treats the inputs as a snapshot: it only ever writes
  \<open>output_file\<close>.
\<close>

record world =
  audio_dir_exists :: bool
  files :: "string \<rightharpoonup> byte list"
  output_file :: "string option"

section \<open>convert\_wav\_to\_array\<close>

text \<open>
  The loop \<open>for i in range(0, len(audio_data), 16)\<close>, with \<open>array_str\<close> as accumulator.
  The slice \<open>audio_data[i:i+16]\<close> stops at the end of the data.
\<close>

function rows_loop :: "byte list \<Rightarrow> nat \<Rightarrow> string \<Rightarrow> string" where
  "rows_loop audio_data i array_str =
     (if i < length audio_data then
        rows_loop audio_data (i + 16)
          (array_str @ ''  '' @ py_join '', '' (map hex_literal (take 16 (drop i audio_data)))
             @ (if i + 16 < length audio_data then '','' else '''') @ ''\<newline>'')
      else array_str)"
  by pat_completeness auto
termination
  by (relation "measure (\<lambda>(audio_data, i, array_str). length audio_data - i)") auto

definition convert_wav_to_array :: "world \<Rightarrow> string \<Rightarrow> string \<Rightarrow> error + string" where
  "convert_wav_to_array w filepath var_name =
     (case files w filepath of
        None \<Rightarrow> Inl FileNotFoundError
      | Some data \<Rightarrow>
          (let audio_data = drop 44 data;
               array_str = ''// '' @ basename filepath @ '' - ''
                             @ py_str (int (length audio_data)) @ '' bytes\<newline>'';
               array_str = array_str @ ''const uint8_t '' @ var_name @ ''[] PROGMEM = {\<newline>'';
               array_str = rows_loop audio_data 0 array_str;
               array_str = array_str @ ''};\<newline>'';
               array_str = array_str @ ''const uint32_t '' @ var_name @ ''_len = ''
                             @ py_str (int (length audio_data)) @ '';\<newline>\<newline>''
           in Inr array_str))"

text \<open>The rows the loop appends for a payload: the body of the emitted C array.\<close>

definition emitted_rows :: "byte list \<Rightarrow> string" where
  "emitted_rows audio_data = rows_loop audio_data 0 []"

section \<open>get\_var\_name and create\_lookup\_table\<close>

definition get_var_name :: "string \<Rightarrow> string" where
  "get_var_name filename =
     (let name = str_replace ''.wav'' '''' filename
      in if name = ''and'' then ''audio_and'' else ''audio_'' @ name)"

definition lookup_entry :: "string \<Rightarrow> string" where
  \<open>lookup_entry filename =
     (let var_name = get_var_name filename
      in ''  {"'' @ filename @ ''", '' @ var_name @ '', '' @ var_name @ ''_len},\<newline>'')\<close>

definition lookup_head :: string where
  "lookup_head =
     ''// Lookup table for audio files\<newline>'' @
     ''struct AudioFile {\<newline>'' @
     ''  const char* name;\<newline>'' @
     ''  const uint8_t* data;\<newline>'' @
     ''  uint32_t length;\<newline>'' @
     ''};\<newline>\<newline>'' @
     ''const AudioFile audioFiles[] = {\<newline>''"

definition create_lookup_table :: "string list \<Rightarrow> string" where
  "create_lookup_table file_list =
     (let lookup = lookup_head;
          lookup = foldl (\<lambda>lookup filename. lookup @ lookup_entry filename) lookup file_list;
          lookup = lookup @ ''};\<newline>\<newline>'';
          lookup = lookup @ ''const int audioFileCount = ''
                     @ py_str (int (length file_list)) @ '';\<newline>\<newline>''
      in lookup)"

section \<open>main\<close>

text \<open>
  The accumulators of the check loop over \<open>REQUIRED_FILES\<close>, and the lines it prints
  (\<open>check_report\<close>). \<open>os.path.exists\<close> followed by \<open>os.path.getsize\<close> is the case
  distinction on \<open>files\<close>. The marks are the UTF-8 bytes of U+2713 and U+2717.
\<close>

record scan =
  existing_files :: "string list"
  missing_files :: "string list"
  total_size :: int
  check_report :: "string list"

definition CHECK_MARK :: string where
  "CHECK_MARK = [CHR 0xE2, CHR 0x9C, CHR 0x93]"

definition CROSS_MARK :: string where
  "CROSS_MARK = [CHR 0xE2, CHR 0x9C, CHR 0x97]"

definition found_line :: "string \<Rightarrow> int \<Rightarrow> string" where
  "found_line filename data_size =
     ''  '' @ CHECK_MARK @ '' '' @ ljust 12 filename @ '' - ''
       @ rjust 6 (py_format_comma data_size) @ '' bytes (audio data)''"

definition missing_line :: "string \<Rightarrow> string" where
  "missing_line filename = ''  '' @ CROSS_MARK @ '' '' @ ljust 12 filename @ '' - MISSING!''"

definition check_file :: "world \<Rightarrow> scan \<Rightarrow> string \<Rightarrow> scan" where
  "check_file w s filename =
     (let filepath = path_join AUDIO_DIR filename
      in case files w filepath of
           Some data \<Rightarrow>
             (let size = int (length data);
                  data_size = size - 44
              in s\<lparr>existing_files := existing_files s @ [filename],
                    total_size := total_size s + data_size,
                    check_report := check_report s @ [found_line filename data_size]\<rparr>)
         | None \<Rightarrow>
             s\<lparr>missing_files := missing_files s @ [filename],
                check_report := check_report s @ [missing_line filename]\<rparr>)"

definition check_files :: "world \<Rightarrow> scan" where
  "check_files w =
     foldl (check_file w)
       \<lparr>existing_files = [], missing_files = [], total_size = 0, check_report = []\<rparr>
       REQUIRED_FILES"

text \<open>What \<open>main\<close> writes before the arrays.\<close>

definition header_preamble :: "scan \<Rightarrow> string" where
  "header_preamble s =
     ''// Auto-generated audio data from WAV files\<newline>'' @
     ''// DO NOT EDIT MANUALLY\<newline>'' @
     ''// Generated from '' @ py_str (int (length (existing_files s))) @ '' WAV files\<newline>'' @
     ''// Total audio data: '' @ py_format_comma (total_size s) @ '' bytes\<newline>\<newline>'' @
     ''#ifndef AUDIO_DATA_H\<newline>'' @
     ''#define AUDIO_DATA_H\<newline>\<newline>'' @
     ''#include <Arduino.h>\<newline>\<newline>''"

text \<open>
  The conversion loop. \<open>buf\<close> is what has been written to the open output file so far;
  an exception of \<open>convert_wav_to_array\<close> leaves the loop with the file as written.
\<close>

fun write_arrays :: "world \<Rightarrow> string list \<Rightarrow> string \<Rightarrow> error option \<times> string" where
  "write_arrays w [] buf = (None, buf)"
| "write_arrays w (filename # rest) buf =
     (let filepath = path_join AUDIO_DIR filename;
          var_name = get_var_name filename
      in case convert_wav_to_array w filepath var_name of
           Inl e \<Rightarrow> (Some e, buf)
         | Inr array_str \<Rightarrow> write_arrays w rest (buf @ array_str))"

text \<open>
  \<open>input(prompt)\<close>: the line typed at the prompt without its newline; \<open>None\<close> is standard
  input at its end, where \<open>input\<close> raises \<open>EOFError\<close>.
\<close>

definition py_input :: "string option \<Rightarrow> error + string" where
  "py_input stdin = (case stdin of None \<Rightarrow> Inl EOFError | Some line \<Rightarrow> Inr line)"

text \<open>
  One run of the script, from the world before and standard input. The result is the
  process exit status, the world after, and the lines the check loop printed. An
  exception reaches the handler at the bottom of the script, which exits with status 1;
  \<open>sys.exit(0)\<close> after a declined prompt and the normal end of the script give status 0.
  The banner, the summary, the capacity warning and the closing notes go to the console
  only and decide nothing; of the console, the result keeps the lines of the check loop.
\<close>

record result =
  exit_status :: int
  final :: world
  report :: "string list"

definition main :: "world \<Rightarrow> string option \<Rightarrow> result" where
  "main w stdin =
     (if \<not> audio_dir_exists w then \<lparr>exit_status = 1, final = w, report = []\<rparr>
      else
        let s = check_files w
        in case py_input stdin of
             Inl e \<Rightarrow> \<lparr>exit_status = 1, final = w, report = check_report s\<rparr>
           | Inr response \<Rightarrow>
               if py_lower response \<noteq> ''y''
               then \<lparr>exit_status = 0, final = w, report = check_report s\<rparr>
               else
                 (case write_arrays w (existing_files s) (header_preamble s) of
                    (Some e, buf) \<Rightarrow>
                      \<lparr>exit_status = 1, final = w\<lparr>output_file := Some buf\<rparr>,
                       report = check_report s\<rparr>
                  | (None, buf) \<Rightarrow>
                      \<lparr>exit_status = 0,
                       final = w\<lparr>output_file := Some (buf
                                 @ create_lookup_table (existing_files s)
                                 @ ''#endif // AUDIO_DATA_H\<newline>'')\<rparr>,
                       report = check_report s\<rparr>))"


section \<open>Reading the generated text back\<close>

text \<open>
  The properties of the generated header are stated on what a reader of the text finds
  in it. \<open>hex_literals\<close> collects the byte of every \<open>0xHH\<close> literal of a text, in order;
  \<open>decimal_value\<close> is the number a string of decimal digits denotes.
\<close>

definition hex_value :: "char \<Rightarrow> nat option" where
  "hex_value c =
     (let n = (of_char c :: nat)
      in if 48 \<le> n \<and> n \<le> 57 then Some (n - 48)
         else if 65 \<le> n \<and> n \<le> 70 then Some (n - 55)
         else None)"

fun hex_literals :: "string \<Rightarrow> byte list" where
  "hex_literals (c0 # cx # h # l # rest) =
     (case (c0 = CHR ''0'' \<and> cx = CHR ''x'', hex_value h, hex_value l) of
        (True, Some hi, Some lo) \<Rightarrow> word_of_nat (16 * hi + lo) # hex_literals rest
      | _ \<Rightarrow> hex_literals (cx # h # l # rest))"
| "hex_literals _ = []"

definition digit_value :: "char \<Rightarrow> nat option" where
  "digit_value c =
     (let n = (of_char c :: nat) in if 48 \<le> n \<and> n \<le> 57 then Some (n - 48) else None)"

fun decimal_loop :: "nat \<Rightarrow> string \<Rightarrow> nat option" where
  "decimal_loop acc [] = Some acc"
| "decimal_loop acc (c # cs) =
     (case digit_value c of None \<Rightarrow> None | Some d \<Rightarrow> decimal_loop (10 * acc + d) cs)"

definition decimal_value :: "string \<Rightarrow> nat option" where
  "decimal_value s = (if s = [] then None else decimal_loop 0 s)"

text \<open>\<open>text.split("\n")\<close>: the lines of a text.\<close>

fun split_lines :: "string \<Rightarrow> string list" where
  "split_lines [] = [[]]"
| "split_lines (c # cs) =
     (if c = CHR 0x0A then [] # split_lines cs
      else (c # hd (split_lines cs)) # tl (split_lines cs))"

text \<open>
  An entry of the lookup table is a line \<open>  {"NAME", VAR, VAR_len},\<close>; the count is the
  number on the line \<open>const int audioFileCount = N;\<close>. \<open>table_names\<close> and \<open>table_vars\<close>
  are the names and the identifiers of the entries of a text in the order they stand
  there, \<open>table_count\<close> the count it declares (\<open>None\<close> unless exactly one line declares
  one).
\<close>

definition is_entry_line :: "string \<Rightarrow> bool" where
  \<open>is_entry_line l = (take 4 l = ''  {"'')\<close>

definition entry_name :: "string \<Rightarrow> string" where
  "entry_name l = takeWhile (\<lambda>c. c \<noteq> CHR 0x22) (drop 4 l)"

definition entry_var :: "string \<Rightarrow> string" where
  "entry_var l =
     takeWhile (\<lambda>c. c \<noteq> CHR '','') (drop 3 (dropWhile (\<lambda>c. c \<noteq> CHR 0x22) (drop 4 l)))"

definition is_count_line :: "string \<Rightarrow> bool" where
  "is_count_line l = (take 27 l = ''const int audioFileCount = '')"

definition table_names :: "string \<Rightarrow> string list" where
  "table_names text = map entry_name (filter is_entry_line (split_lines text))"

definition table_vars :: "string \<Rightarrow> string list" where
  "table_vars text = map entry_var (filter is_entry_line (split_lines text))"

definition table_count :: "string \<Rightarrow> nat option" where
  "table_count text =
     (case filter is_count_line (split_lines text) of
        [l] \<Rightarrow> decimal_value (takeWhile (\<lambda>c. c \<noteq> CHR '';'') (drop 27 l))
      | _ \<Rightarrow> None)"

text \<open>\<open>os.path.exists(os.path.join(AUDIO_DIR, filename))\<close>, the test of the check loop.\<close>

definition present :: "world \<Rightarrow> string \<Rightarrow> bool" where
  "present w filename = (files w (path_join AUDIO_DIR filename) \<noteq> None)"

section \<open>The generated text, line by line\<close>

text \<open>
  For the proofs, each piece of generated text is described as a list of lines, every
  line ended by a newline: the rows of an array, one complete array, the preamble, the
  lookup table and the whole header. The lemmas below show that the functions of the
  script produce exactly these lines.
\<close>

definition unlines :: "string list \<Rightarrow> string" where
  "unlines ls = concat (map (\<lambda>l. l @ ''\<newline>'') ls)"

definition row_text :: "byte list \<Rightarrow> bool \<Rightarrow> string" where
  "row_text chunk cont =
     ''  '' @ py_join '', '' (map hex_literal chunk) @ (if cont then '','' else '''')"

function row_lines :: "byte list \<Rightarrow> nat \<Rightarrow> string list" where
  "row_lines audio_data i =
     (if i < length audio_data
      then row_text (take 16 (drop i audio_data)) (i + 16 < length audio_data)
             # row_lines audio_data (i + 16)
      else [])"
  by pat_completeness auto
termination
  by (relation "measure (\<lambda>(audio_data, i). length audio_data - i)") auto

definition array_lines :: "string \<Rightarrow> string \<Rightarrow> byte list \<Rightarrow> string list" where
  "array_lines base var_name audio_data =
     [''// '' @ base @ '' - '' @ py_str (int (length audio_data)) @ '' bytes'',
      ''const uint8_t '' @ var_name @ ''[] PROGMEM = {'']
     @ row_lines audio_data 0
     @ [''};'',
        ''const uint32_t '' @ var_name @ ''_len = '' @ py_str (int (length audio_data)) @ '';'',
        '''']"

definition entry_line :: "string \<Rightarrow> string" where
  \<open>entry_line filename =
     ''  {"'' @ filename @ ''", '' @ get_var_name filename @ '', ''
       @ get_var_name filename @ ''_len},''\<close>

definition count_line :: "nat \<Rightarrow> string" where
  "count_line n = ''const int audioFileCount = '' @ py_str (int n) @ '';''"

definition table_lines :: "string list \<Rightarrow> string list" where
  "table_lines file_list =
     [''// Lookup table for audio files'',
      ''struct AudioFile {'',
      ''  const char* name;'',
      ''  const uint8_t* data;'',
      ''  uint32_t length;'',
      ''};'',
      '''',
      ''const AudioFile audioFiles[] = {'']
     @ map entry_line file_list
     @ [''};'',
        '''',
        ''const int audioFileCount = '' @ py_str (int (length file_list)) @ '';'',
        '''']"

definition preamble_lines :: "scan \<Rightarrow> string list" where
  "preamble_lines s =
     [''// Auto-generated audio data from WAV files'',
      ''// DO NOT EDIT MANUALLY'',
      ''// Generated from '' @ py_str (int (length (existing_files s))) @ '' WAV files'',
      ''// Total audio data: '' @ py_format_comma (total_size s) @ '' bytes'',
      '''',
      ''#ifndef AUDIO_DATA_H'',
      ''#define AUDIO_DATA_H'',
      '''',
      ''#include <Arduino.h>'',
      '''']"

text \<open>The payload of a required file, the size the check loop reports for it, and its line.\<close>

definition file_audio :: "world \<Rightarrow> string \<Rightarrow> byte list" where
  "file_audio w filename =
     (case files w (path_join AUDIO_DIR filename) of None \<Rightarrow> [] | Some data \<Rightarrow> drop 44 data)"

definition data_size_of :: "world \<Rightarrow> string \<Rightarrow> int" where
  "data_size_of w filename =
     (case files w (path_join AUDIO_DIR filename) of
        None \<Rightarrow> 0 | Some data \<Rightarrow> int (length data) - 44)"

definition report_line :: "world \<Rightarrow> string \<Rightarrow> string" where
  "report_line w filename =
     (if present w filename then found_line filename (data_size_of w filename)
      else missing_line filename)"

definition header_lines :: "world \<Rightarrow> string list" where
  "header_lines w =
     (let s = check_files w
      in preamble_lines s
         @ concat (map (\<lambda>f. array_lines f (get_var_name f) (file_audio w f)) (existing_files s))
         @ table_lines (existing_files s)
         @ [''#endif // AUDIO_DATA_H''])"

text \<open>
  A line is \<open>plain\<close> when it holds no newline and is neither a table entry nor the count
  line. \<open>name_ok\<close> collects what the proofs need of a file name; it is checked for
  every name of \<open>REQUIRED_FILES\<close> by evaluation.
\<close>

definition plain :: "string \<Rightarrow> bool" where
  "plain l = (CHR 0x0A \<notin> set l \<and> \<not> is_entry_line l \<and> \<not> is_count_line l)"

definition name_ok :: "string \<Rightarrow> bool" where
  "name_ok f =
     (CHR 0x0A \<notin> set f \<and> CHR 0x0A \<notin> set (get_var_name f) \<and>
      basename (path_join AUDIO_DIR f) = f \<and>
      is_entry_line (entry_line f) \<and> \<not> is_count_line (entry_line f) \<and>
      entry_name (entry_line f) = f \<and> entry_var (entry_line f) = get_var_name f)"

section \<open>Example worlds\<close>

text \<open>
  \<open>w_scenario\<close>: the file \<open>100.wav\<close> with 44 header bytes and 1000 bytes of samples.
  \<open>w_two\<close>: two of the required files, one of them with a header only. \<open>w_all\<close>: every path exists, as an empty file.
  \<open>w_three_missing\<close>: every required file but three. \<open>w_short\<close>: a file of three bytes.
  \<open>w_no_dir\<close>: no audio directory, and an output file from before.
\<close>

definition w_scenario :: world where
  "w_scenario = \<lparr>audio_dir_exists = True,
                 files = [''audio_files/100.wav'' \<mapsto> replicate 44 0 @ replicate 1000 0x80],
                 output_file = None\<rparr>"

definition w_two :: world where
  "w_two = \<lparr>audio_dir_exists = True,
            files = [''audio_files/1.wav'' \<mapsto> replicate 44 0 @ [0x80, 0x7F],
                     ''audio_files/and.wav'' \<mapsto> replicate 44 0],
            output_file = None\<rparr>"

definition w_all :: world where
  "w_all = \<lparr>audio_dir_exists = True, files = (\<lambda>p. Some []), output_file = None\<rparr>"

definition w_three_missing :: world where
  "w_three_missing =
     \<lparr>audio_dir_exists = True,
      files = (\<lambda>p. if p \<in> {''audio_files/7.wav'', ''audio_files/40.wav'', ''audio_files/and.wav''}
                   then None else Some []),
      output_file = None\<rparr>"

definition w_short :: world where
  "w_short = \<lparr>audio_dir_exists = True,
              files = [''audio_files/1.wav'' \<mapsto> [0x52, 0x49, 0x46]],
              output_file = None\<rparr>"

definition w_no_dir :: world where
  "w_no_dir = \<lparr>audio_dir_exists = False, files = Map.empty, output_file = Some ''old''\<rparr>"


section \<open>Auxiliary lemmas\<close>

text \<open>
  The defining equations of the loops are unfolded by hand, one step at a time.
\<close>

declare rows_loop.simps [simp del] row_lines.simps [simp del] py_str_nat.simps [simp del]
  group_thousands.simps [simp del] py_range.simps [simp del] str_replace.simps [simp del]

subsection \<open>Hexadecimal literals\<close>

lemma below_16_cases:
  "d < 16 \<Longrightarrow> d = 0 \<or> d = 1 \<or> d = 2 \<or> d = 3 \<or> d = 4 \<or> d = 5 \<or> d = 6 \<or> d = 7 \<or> d = 8
     \<or> d = 9 \<or> d = 10 \<or> d = 11 \<or> d = 12 \<or> d = 13 \<or> d = 14 \<or> d = (15::nat)"
  by arith

lemma hex_value_hex_char:
  assumes "d < 16"
  shows "hex_value (hex_char d) = Some d"
  using below_16_cases[OF assms] by (elim disjE) (simp_all add: hex_value_def hex_char_def)

lemma hex_literals_skip: "c \<noteq> CHR ''0'' \<Longrightarrow> hex_literals (c # s) = hex_literals s"
  by (cases s rule: hex_literals.cases) (auto split: option.splits bool.splits)

lemma hex_literals_literal: "hex_literals (hex_literal b @ s) = b # hex_literals s"
proof -
  have lt: "unat b div 16 < 16" "unat b mod 16 < 16"
    using unsigned_less[of b, where 'a=nat] by (auto simp: div_less_iff_less_mult)
  have "word_of_nat (16 * (unat b div 16) + unat b mod 16) = b"
    by simp
  then show ?thesis
    by (simp add: hex_literal_def format_02X_def hex_value_hex_char lt)
qed

subsection \<open>Lines\<close>

lemma split_lines_nonempty: "split_lines s \<noteq> []"
  by (cases s) auto

lemma split_lines_line:
  "CHR 0x0A \<notin> set l \<Longrightarrow> split_lines (l @ CHR 0x0A # b) = l # split_lines b"
  by (induction l) auto

lemma unlines_Nil: "unlines [] = []"
  by (simp add: unlines_def)

lemma unlines_Cons: "unlines (l # ls) = l @ CHR 0x0A # unlines ls"
  by (simp add: unlines_def)

lemma unlines_append: "unlines (xs @ ys) = unlines xs @ unlines ys"
  by (simp add: unlines_def)

lemma split_lines_unlines:
  "\<forall>l \<in> set ls. CHR 0x0A \<notin> set l \<Longrightarrow> split_lines (unlines ls @ b) = ls @ split_lines b"
  by (induction ls) (simp_all add: unlines_Nil unlines_Cons split_lines_line)

subsection \<open>The rows of an array\<close>

lemma rows_loop_lines:
  "rows_loop audio_data i array_str = array_str @ unlines (row_lines audio_data i)"
proof (induction audio_data i array_str rule: rows_loop.induct)
  case (1 audio_data i array_str)
  show ?case
  proof (cases "i < length audio_data")
    case True
    then show ?thesis
      using "1.IH"[OF True]
      by (subst rows_loop.simps, subst row_lines.simps)
         (simp add: unlines_Cons row_text_def)
  next
    case False
    then show ?thesis
      by (subst rows_loop.simps, subst row_lines.simps) (simp add: unlines_Nil)
  qed
qed

lemma hex_literals_join:
  "hex_literals (py_join '', '' (map hex_literal chunk) @ t) = chunk @ hex_literals t"
proof (induction chunk rule: induct_list012)
  case 1
  then show ?case by simp
next
  case (2 x)
  then show ?case by (simp add: hex_literals_literal)
next
  case (3 x y zs)
  then show ?case
    by (simp add: hex_literals_literal hex_literals_skip)
qed

lemma hex_literals_row:
  "hex_literals (row_text chunk cont @ CHR 0x0A # s) = chunk @ hex_literals s"
  by (simp add: row_text_def hex_literals_skip hex_literals_join)

lemma hex_literals_rows:
  "hex_literals (unlines (row_lines audio_data i) @ s) = drop i audio_data @ hex_literals s"
proof (induction audio_data i rule: row_lines.induct)
  case (1 audio_data i)
  show ?case
  proof (cases "i < length audio_data")
    case True
    have split: "take 16 (drop i audio_data) @ drop (i + 16) audio_data = drop i audio_data"
      by (metis append_take_drop_id drop_drop add.commute)
    have "hex_literals (unlines (row_lines audio_data i) @ s) =
            take 16 (drop i audio_data) @ hex_literals (unlines (row_lines audio_data (i + 16)) @ s)"
      by (subst row_lines.simps) (simp add: True unlines_Cons hex_literals_row)
    also have "\<dots> = take 16 (drop i audio_data) @ drop (i + 16) audio_data @ hex_literals s"
      using "1.IH"[OF True] by simp
    finally show ?thesis
      using split by (metis append.assoc)
  next
    case False
    then show ?thesis
      by (subst row_lines.simps) (simp add: unlines_Nil)
  qed
qed

lemma emitted_rows_lines: "emitted_rows audio_data = unlines (row_lines audio_data 0)"
  by (simp add: emitted_rows_def rows_loop_lines)

lemma hex_literals_emitted_rows: "hex_literals (emitted_rows audio_data) = audio_data"
  using hex_literals_rows[of audio_data 0 "[]"] by (simp add: emitted_rows_lines)

subsection \<open>Decimal numbers\<close>

lemma below_10_cases:
  "d < 10 \<Longrightarrow> d = 0 \<or> d = 1 \<or> d = 2 \<or> d = 3 \<or> d = 4 \<or> d = 5 \<or> d = 6 \<or> d = 7 \<or> d = 8
     \<or> d = (9::nat)"
  by arith

lemma digit_value_digit_char:
  assumes "d < 10"
  shows "digit_value (digit_char d) = Some d"
  using below_10_cases[OF assms] by (elim disjE) (simp_all add: digit_value_def digit_char_def)

lemma decimal_loop_snoc:
  "decimal_loop acc (xs @ [c]) =
     (case decimal_loop acc xs of
        None \<Rightarrow> None
      | Some v \<Rightarrow> (case digit_value c of None \<Rightarrow> None | Some d \<Rightarrow> Some (10 * v + d)))"
  by (induction xs arbitrary: acc) (auto split: option.splits)

lemma decimal_loop_py_str_nat: "decimal_loop 0 (py_str_nat n) = Some n"
proof (induction n rule: py_str_nat.induct)
  case (1 n)
  show ?case
  proof (cases "n < 10")
    case True
    then show ?thesis
      by (subst py_str_nat.simps) (simp add: digit_value_digit_char)
  next
    case False
    then have "decimal_loop 0 (py_str_nat (n div 10)) = Some (n div 10)"
      using "1.IH" by simp
    then show ?thesis
      using False
      by (subst py_str_nat.simps) (simp add: decimal_loop_snoc digit_value_digit_char)
  qed
qed

lemma py_str_nat_nonempty: "py_str_nat n \<noteq> []"
  by (subst py_str_nat.simps) simp

lemma decimal_value_py_str: "decimal_value (py_str (int n)) = Some n"
  by (simp add: decimal_value_def py_str_def py_str_nat_nonempty decimal_loop_py_str_nat)

subsection \<open>What convert\_wav\_to\_array returns\<close>

lemma convert_wav_to_array_lines:
  assumes "files w filepath = Some data"
  shows "convert_wav_to_array w filepath var_name =
           Inr (unlines (array_lines (basename filepath) var_name (drop 44 data)))"
  using assms
  by (simp add: convert_wav_to_array_def Let_def rows_loop_lines array_lines_def
        unlines_append unlines_Cons unlines_Nil)

lemma convert_wav_to_array_text:
  assumes "files w filepath = Some data"
  shows "convert_wav_to_array w filepath var_name =
           Inr (''// '' @ basename filepath @ '' - '' @ py_str (int (length (drop 44 data)))
                  @ '' bytes\<newline>''
                @ ''const uint8_t '' @ var_name @ ''[] PROGMEM = {\<newline>''
                @ emitted_rows (drop 44 data)
                @ ''};\<newline>''
                @ ''const uint32_t '' @ var_name @ ''_len = ''
                  @ py_str (int (length (drop 44 data))) @ '';\<newline>\<newline>'')"
  using assms
  by (simp add: convert_wav_to_array_def Let_def rows_loop_lines emitted_rows_def)

subsection \<open>The required files, by evaluation\<close>

lemma REQUIRED_FILES_eq:
  "REQUIRED_FILES =
     [''1.wav'', ''2.wav'', ''3.wav'', ''4.wav'', ''5.wav'', ''6.wav'', ''7.wav'', ''8.wav'',
      ''9.wav'',
      ''10.wav'', ''11.wav'', ''12.wav'', ''13.wav'', ''14.wav'', ''15.wav'', ''16.wav'',
      ''17.wav'', ''18.wav'', ''19.wav'',
      ''20.wav'', ''30.wav'', ''40.wav'', ''50.wav'', ''60.wav'', ''70.wav'', ''80.wav'',
      ''90.wav'',
      ''100.wav'', ''200.wav'', ''300.wav'', ''400.wav'', ''500.wav'', ''600.wav'',
      ''700.wav'', ''800.wav'', ''900.wav'',
      ''and.wav'']"
  by code_simp

lemma REQUIRED_FILES_ok: "list_all name_ok REQUIRED_FILES"
  by code_simp

lemma var_names_eq:
  "map get_var_name REQUIRED_FILES =
     [''audio_1'', ''audio_2'', ''audio_3'', ''audio_4'', ''audio_5'', ''audio_6'',
      ''audio_7'', ''audio_8'', ''audio_9'',
      ''audio_10'', ''audio_11'', ''audio_12'', ''audio_13'', ''audio_14'', ''audio_15'',
      ''audio_16'', ''audio_17'', ''audio_18'', ''audio_19'',
      ''audio_20'', ''audio_30'', ''audio_40'', ''audio_50'', ''audio_60'', ''audio_70'',
      ''audio_80'', ''audio_90'',
      ''audio_100'', ''audio_200'', ''audio_300'', ''audio_400'', ''audio_500'',
      ''audio_600'', ''audio_700'', ''audio_800'', ''audio_900'',
      ''audio_and'']"
  by code_simp

lemma var_names_distinct: "distinct (map get_var_name REQUIRED_FILES)"
  by code_simp

lemma REQUIRED_FILES_distinct: "distinct REQUIRED_FILES"
  by code_simp

lemma REQUIRED_FILES_length: "length REQUIRED_FILES = 37"
  by code_simp

subsection \<open>The check loop\<close>

lemma check_loop_existing:
  "existing_files (foldl (check_file w) s fs) = existing_files s @ filter (present w) fs"
  by (induction fs arbitrary: s)
     (auto simp: check_file_def present_def Let_def split: option.splits)

lemma check_loop_missing:
  "missing_files (foldl (check_file w) s fs) =
     missing_files s @ filter (\<lambda>f. \<not> present w f) fs"
  by (induction fs arbitrary: s)
     (auto simp: check_file_def present_def Let_def split: option.splits)

lemma check_loop_report:
  "check_report (foldl (check_file w) s fs) = check_report s @ map (report_line w) fs"
  by (induction fs arbitrary: s)
     (auto simp: check_file_def present_def report_line_def data_size_of_def Let_def
           split: option.splits)

lemma check_loop_total:
  "total_size (foldl (check_file w) s fs) =
     total_size s + sum_list (map (data_size_of w) (filter (present w) fs))"
  by (induction fs arbitrary: s)
     (auto simp: check_file_def present_def data_size_of_def Let_def split: option.splits)

lemma existing_files_check: "existing_files (check_files w) = filter (present w) REQUIRED_FILES"
  by (simp add: check_files_def check_loop_existing)

lemma missing_files_check:
  "missing_files (check_files w) = filter (\<lambda>f. \<not> present w f) REQUIRED_FILES"
  by (simp add: check_files_def check_loop_missing)

lemma check_report_check: "check_report (check_files w) = map (report_line w) REQUIRED_FILES"
  by (simp add: check_files_def check_loop_report)

lemma total_size_check:
  "total_size (check_files w) =
     sum_list (map (data_size_of w) (filter (present w) REQUIRED_FILES))"
  by (simp add: check_files_def check_loop_total)

subsection \<open>The conversion loop and the three outcomes of main\<close>

lemma name_ok_required: "f \<in> set REQUIRED_FILES \<Longrightarrow> name_ok f"
  using REQUIRED_FILES_ok by (simp add: list_all_iff)

lemma write_arrays_present:
  assumes "\<forall>f \<in> set fl. present w f \<and> name_ok f"
  shows "write_arrays w fl buf =
           (None, buf @ unlines (concat (map (\<lambda>f. array_lines f (get_var_name f) (file_audio w f)) fl)))"
  using assms
proof (induction fl arbitrary: buf)
  case Nil
  then show ?case by (simp add: unlines_Nil)
next
  case (Cons f fl)
  from Cons.prems obtain data where d: "files w (path_join AUDIO_DIR f) = Some data"
    by (auto simp: present_def)
  have b: "basename (path_join AUDIO_DIR f) = f"
    using Cons.prems by (simp add: name_ok_def)
  have a: "file_audio w f = drop 44 data"
    by (simp add: file_audio_def d)
  show ?case
    using Cons.IH[of "buf @ unlines (array_lines f (get_var_name f) (drop 44 data))"] Cons.prems
    by (simp add: Let_def convert_wav_to_array_lines[OF d] b a unlines_append)
qed

lemma create_lookup_table_lines: "create_lookup_table fl = unlines (table_lines fl)"
proof -
  have loop: "foldl (\<lambda>lookup filename. lookup @ lookup_entry filename) acc fl =
                acc @ unlines (map entry_line fl)" for acc
    by (induction fl arbitrary: acc)
       (simp_all add: unlines_Nil unlines_Cons lookup_entry_def entry_line_def Let_def)
  show ?thesis
    by (simp add: create_lookup_table_def Let_def loop lookup_head_def table_lines_def
          unlines_append unlines_Cons unlines_Nil)
qed

lemma header_preamble_lines: "header_preamble s = unlines (preamble_lines s)"
  by (simp add: header_preamble_def preamble_lines_def unlines_Cons unlines_Nil)

lemma existing_ok: "\<forall>f \<in> set (existing_files (check_files w)). present w f \<and> name_ok f"
  by (auto simp: existing_files_check name_ok_required)

lemma main_accepted:
  assumes "audio_dir_exists w" and "py_lower response = ''y''"
  shows "main w (Some response) =
           \<lparr>exit_status = 0,
            final = w\<lparr>output_file := Some (unlines (header_lines w))\<rparr>,
            report = map (report_line w) REQUIRED_FILES\<rparr>"
  using assms
  by (simp add: main_def py_input_def Let_def write_arrays_present[OF existing_ok] header_lines_def
        create_lookup_table_lines header_preamble_lines unlines_append unlines_Cons unlines_Nil
        check_report_check)

lemma main_declined:
  assumes "audio_dir_exists w" and "py_lower response \<noteq> ''y''"
  shows "main w (Some response) =
           \<lparr>exit_status = 0, final = w, report = map (report_line w) REQUIRED_FILES\<rparr>"
  using assms by (simp add: main_def py_input_def Let_def check_report_check)

lemma main_no_dir:
  assumes "\<not> audio_dir_exists w"
  shows "main w stdin = \<lparr>exit_status = 1, final = w, report = []\<rparr>"
  using assms by (simp add: main_def)

subsection \<open>No generated line holds a newline or is mistaken for a table line\<close>

lemma digit_char_in: "d < 10 \<Longrightarrow> digit_char d \<in> set ''0123456789''"
  unfolding digit_char_def by (rule nth_mem) simp

lemma py_str_nat_digits: "set (py_str_nat n) \<subseteq> set ''0123456789''"
proof (induction n rule: py_str_nat.induct)
  case (1 n)
  show ?case
  proof (cases "n < 10")
    case True
    then show ?thesis
      using digit_char_in[of n] by (subst py_str_nat.simps) simp
  next
    case False
    then show ?thesis
      using "1.IH" digit_char_in[of "n mod 10"] by (subst py_str_nat.simps) simp
  qed
qed

lemma group_thousands_chars: "set (group_thousands ds) \<subseteq> insert CHR '','' (set ds)"
proof (induction ds rule: group_thousands.induct)
  case (1 ds)
  show ?case
  proof (cases "length ds \<le> 3")
    case True
    then show ?thesis by (subst group_thousands.simps) auto
  next
    case False
    then have "set (group_thousands (take (length ds - 3) ds))
                 \<subseteq> insert CHR '','' (set (take (length ds - 3) ds))"
      using "1.IH" by simp
    then show ?thesis
      using False set_take_subset[of "length ds - 3" ds] set_drop_subset[of "length ds - 3" ds]
      by (subst group_thousands.simps) auto
  qed
qed

lemma py_str_nat_no_newline: "CHR 0x0A \<notin> set (py_str_nat n)"
  using py_str_nat_digits[of n] by auto

lemma py_str_nat_no_semicolon: "CHR '';'' \<notin> set (py_str_nat n)"
  using py_str_nat_digits[of n] by auto

lemma py_str_no_newline: "CHR 0x0A \<notin> set (py_str i)"
  by (simp add: py_str_def py_str_nat_no_newline)

lemma py_str_no_semicolon: "CHR '';'' \<notin> set (py_str i)"
  by (simp add: py_str_def py_str_nat_no_semicolon)

lemma group_thousands_no_newline:
  "CHR 0x0A \<notin> set ds \<Longrightarrow> CHR 0x0A \<notin> set (group_thousands ds)"
  using group_thousands_chars[of ds] by auto

lemma py_format_comma_no_newline: "CHR 0x0A \<notin> set (py_format_comma i)"
  by (simp add: py_format_comma_def group_thousands_no_newline py_str_nat_no_newline)

lemma hex_char_in: "d < 16 \<Longrightarrow> hex_char d \<in> set ''0123456789ABCDEF''"
  unfolding hex_char_def by (rule nth_mem) simp

lemma hex_literal_no_newline: "CHR 0x0A \<notin> set (hex_literal b)"
proof -
  have lt: "unat b div 16 < 16" "unat b mod 16 < 16"
    using unsigned_less[of b, where 'a=nat] by (auto simp: div_less_iff_less_mult)
  show ?thesis
    using hex_char_in[OF lt(1)] hex_char_in[OF lt(2)]
    by (auto simp: hex_literal_def format_02X_def)
qed

lemma join_no_newline: "CHR 0x0A \<notin> set (py_join '', '' (map hex_literal chunk))"
  by (induction chunk rule: induct_list012) (simp_all add: hex_literal_no_newline)

lemma row_text_plain: "plain (row_text chunk cont)"
proof -
  have nl: "CHR 0x0A \<notin> set (row_text chunk cont)"
    by (simp add: row_text_def join_no_newline)
  have ne: "\<not> is_entry_line (row_text chunk cont)"
  proof -
    consider "chunk = []" | x where "chunk = [x]" | x y zs where "chunk = x # y # zs"
      by (cases chunk; cases "tl chunk") auto
    then show ?thesis
      by cases (auto simp: row_text_def is_entry_line_def hex_literal_def)
  qed
  have nc: "\<not> is_count_line (row_text chunk cont)"
    by (simp add: row_text_def is_count_line_def)
  show ?thesis
    by (simp add: plain_def nl ne nc)
qed

lemma row_lines_plain: "\<forall>l \<in> set (row_lines audio_data i). plain l"
proof (induction audio_data i rule: row_lines.induct)
  case (1 audio_data i)
  show ?case
  proof (cases "i < length audio_data")
    case True
    then show ?thesis
      using "1.IH" by (subst row_lines.simps) (simp add: row_text_plain)
  next
    case False
    then show ?thesis by (subst row_lines.simps) simp
  qed
qed

lemma array_lines_plain:
  assumes "CHR 0x0A \<notin> set base" and "CHR 0x0A \<notin> set var_name"
  shows "\<forall>l \<in> set (array_lines base var_name audio_data). plain l"
proof -
  have "plain (''// '' @ base @ '' - '' @ py_str (int (length audio_data)) @ '' bytes'')"
    using assms by (simp add: plain_def is_entry_line_def is_count_line_def py_str_no_newline)
  moreover have "plain (''const uint8_t '' @ var_name @ ''[] PROGMEM = {'')"
    using assms by (simp add: plain_def is_entry_line_def is_count_line_def)
  moreover have "plain ''};''" and "plain ''''"
    by (simp_all add: plain_def is_entry_line_def is_count_line_def)
  moreover have "plain (''const uint32_t '' @ var_name @ ''_len = ''
                          @ py_str (int (length audio_data)) @ '';'')"
    using assms by (simp add: plain_def is_entry_line_def is_count_line_def py_str_no_newline)
  ultimately show ?thesis
    using row_lines_plain[of audio_data 0] by (auto simp: array_lines_def)
qed

lemma preamble_lines_plain: "\<forall>l \<in> set (preamble_lines s). plain l"
  by (simp add: preamble_lines_def plain_def is_entry_line_def is_count_line_def
        py_str_no_newline py_format_comma_no_newline)

subsection \<open>The table read back from the header\<close>

lemma plain_no_newline: "\<forall>l \<in> set ls. plain l \<Longrightarrow> \<forall>l \<in> set ls. CHR 0x0A \<notin> set l"
  by (simp add: plain_def)

lemma plain_no_entries: "\<forall>l \<in> set ls. plain l \<Longrightarrow> filter is_entry_line ls = []"
  by (simp add: plain_def)

lemma plain_no_count: "\<forall>l \<in> set ls. plain l \<Longrightarrow> filter is_count_line ls = []"
  by (simp add: plain_def)

lemma table_head_plain:
  "\<forall>l \<in> set [''// Lookup table for audio files'', ''struct AudioFile {'',
               ''  const char* name;'', ''  const uint8_t* data;'', ''  uint32_t length;'',
               ''};'', '''', ''const AudioFile audioFiles[] = {'']. plain l"
  by (simp add: plain_def is_entry_line_def is_count_line_def)

lemma count_line_props:
  "CHR 0x0A \<notin> set (count_line n)" "is_count_line (count_line n)"
  "\<not> is_entry_line (count_line n)"
  "decimal_value (takeWhile (\<lambda>c. c \<noteq> CHR '';'') (drop 27 (count_line n))) = Some n"
proof -
  show "CHR 0x0A \<notin> set (count_line n)"
    by (simp add: count_line_def py_str_no_newline)
  show "is_count_line (count_line n)"
    by (simp add: count_line_def is_count_line_def)
  show "\<not> is_entry_line (count_line n)"
    by (simp add: count_line_def is_entry_line_def)
  have "takeWhile (\<lambda>c. c \<noteq> CHR '';'') (py_str (int n) @ '';'') = py_str (int n)"
    using py_str_no_semicolon[of "int n"] by (auto simp: takeWhile_tail)
  then show "decimal_value (takeWhile (\<lambda>c. c \<noteq> CHR '';'') (drop 27 (count_line n))) = Some n"
    by (simp add: count_line_def decimal_value_py_str)
qed

lemma table_lines_split:
  "table_lines fl =
     [''// Lookup table for audio files'', ''struct AudioFile {'',
      ''  const char* name;'', ''  const uint8_t* data;'', ''  uint32_t length;'',
      ''};'', '''', ''const AudioFile audioFiles[] = {'']
     @ map entry_line fl @ [''};'', '''', count_line (length fl), '''']"
  by (simp add: table_lines_def count_line_def)

lemma entry_lines_props:
  assumes "\<forall>f \<in> set fl. name_ok f"
  shows "\<forall>l \<in> set (map entry_line fl). CHR 0x0A \<notin> set l"
    and "filter is_entry_line (map entry_line fl) = map entry_line fl"
    and "filter is_count_line (map entry_line fl) = []"
    and "map entry_name (map entry_line fl) = fl"
    and "map entry_var (map entry_line fl) = map get_var_name fl"
proof -
  show "\<forall>l \<in> set (map entry_line fl). CHR 0x0A \<notin> set l"
    using assms by (auto simp: name_ok_def entry_line_def)
  show "filter is_entry_line (map entry_line fl) = map entry_line fl"
    using assms by (induction fl) (simp_all add: name_ok_def)
  show "filter is_count_line (map entry_line fl) = []"
    using assms by (induction fl) (simp_all add: name_ok_def)
  show "map entry_name (map entry_line fl) = fl"
    using assms by (induction fl) (simp_all add: name_ok_def)
  show "map entry_var (map entry_line fl) = map get_var_name fl"
    using assms by (induction fl) (simp_all add: name_ok_def)
qed

lemma table_lines_props:
  assumes "\<forall>f \<in> set fl. name_ok f"
  shows "\<forall>l \<in> set (table_lines fl). CHR 0x0A \<notin> set l"
    and "filter is_entry_line (table_lines fl) = map entry_line fl"
    and "filter is_count_line (table_lines fl) = [count_line (length fl)]"
proof -
  have tail: "CHR 0x0A \<notin> set ''};''" "\<not> is_entry_line ''};''" "\<not> is_count_line ''};''"
    "\<not> is_entry_line ''''" "\<not> is_count_line ''''"
    by (simp_all add: is_entry_line_def is_count_line_def)
  show "\<forall>l \<in> set (table_lines fl). CHR 0x0A \<notin> set l"
    unfolding table_lines_split
    using plain_no_newline[OF table_head_plain] entry_lines_props(1)[OF assms]
          count_line_props(1)[of "length fl"]
    by (simp only: set_append ball_Un) simp
  show "filter is_entry_line (table_lines fl) = map entry_line fl"
    unfolding table_lines_split filter_append
    by (simp only: plain_no_entries[OF table_head_plain] entry_lines_props(2)[OF assms])
       (simp add: tail count_line_props)
  show "filter is_count_line (table_lines fl) = [count_line (length fl)]"
    unfolding table_lines_split filter_append
    by (simp only: plain_no_count[OF table_head_plain] entry_lines_props(3)[OF assms])
       (simp add: tail count_line_props)
qed

lemma arrays_plain:
  assumes "\<forall>f \<in> set fl. name_ok f"
  shows "\<forall>l \<in> set (concat (map (\<lambda>f. array_lines f (get_var_name f) (file_audio w f)) fl)). plain l"
  using assms array_lines_plain by (auto simp: name_ok_def)

lemma endif_plain: "\<forall>l \<in> set [''#endif // AUDIO_DATA_H'']. plain l"
  by (simp add: plain_def is_entry_line_def is_count_line_def)

lemma existing_name_ok: "\<forall>f \<in> set (existing_files (check_files w)). name_ok f"
  using existing_ok by blast

lemma header_lines_props:
  shows "\<forall>l \<in> set (header_lines w). CHR 0x0A \<notin> set l"
    and "filter is_entry_line (header_lines w) = map entry_line (existing_files (check_files w))"
    and "filter is_count_line (header_lines w) =
           [count_line (length (existing_files (check_files w)))]"
proof -
  let ?ex = "existing_files (check_files w)"
  note ok = existing_name_ok[of w]
  show "\<forall>l \<in> set (header_lines w). CHR 0x0A \<notin> set l"
    using plain_no_newline[OF preamble_lines_plain[of "check_files w"]]
          plain_no_newline[OF arrays_plain[OF ok, of w]]
          table_lines_props(1)[OF ok] plain_no_newline[OF endif_plain]
    unfolding header_lines_def Let_def by (simp only: set_append ball_Un)
  show "filter is_entry_line (header_lines w) = map entry_line ?ex"
    unfolding header_lines_def Let_def filter_append
    by (simp only: plain_no_entries[OF preamble_lines_plain] plain_no_entries[OF arrays_plain[OF ok]]
          table_lines_props(2)[OF ok] plain_no_entries[OF endif_plain]) simp
  show "filter is_count_line (header_lines w) = [count_line (length ?ex)]"
    unfolding header_lines_def Let_def filter_append
    by (simp only: plain_no_count[OF preamble_lines_plain] plain_no_count[OF arrays_plain[OF ok]]
          table_lines_props(3)[OF ok] plain_no_count[OF endif_plain]) simp
qed

lemma split_lines_header: "split_lines (unlines (header_lines w)) = header_lines w @ [[]]"
  using split_lines_unlines[OF header_lines_props(1), of w "[]"] by simp

lemma present_name_ok: "\<forall>f \<in> set (filter (present w) REQUIRED_FILES). name_ok f"
  by (simp add: name_ok_required)

lemma entry_lines_header:
  "filter is_entry_line (split_lines (unlines (header_lines w))) =
     map entry_line (filter (present w) REQUIRED_FILES)"
  by (simp add: split_lines_header header_lines_props(2) is_entry_line_def existing_files_check)

lemma table_names_header:
  "table_names (unlines (header_lines w)) = filter (present w) REQUIRED_FILES"
  unfolding table_names_def entry_lines_header
  by (rule entry_lines_props(4)[OF present_name_ok])

lemma table_vars_header:
  "table_vars (unlines (header_lines w)) = map get_var_name (filter (present w) REQUIRED_FILES)"
  unfolding table_vars_def entry_lines_header
  by (rule entry_lines_props(5)[OF present_name_ok])

lemma table_count_header:
  "table_count (unlines (header_lines w)) = Some (length (filter (present w) REQUIRED_FILES))"
  by (simp add: table_count_def split_lines_header header_lines_props(3) is_count_line_def
        count_line_props(4) existing_files_check)

subsection \<open>The confirmation, the identifiers and the counts\<close>

lemma lower_char_y: "lower_char c = CHR ''y'' \<longleftrightarrow> c = CHR ''y'' \<or> c = CHR ''Y''"
proof
  assume a: "lower_char c = CHR ''y''"
  show "c = CHR ''y'' \<or> c = CHR ''Y''"
  proof (cases "65 \<le> (of_char c :: nat) \<and> (of_char c :: nat) \<le> 90")
    case True
    then have "char_of ((of_char c :: nat) + 32) = CHR ''y''"
      using a by (simp add: lower_char_def)
    then have "(of_char (char_of ((of_char c :: nat) + 32)) :: nat) = of_char CHR ''y''"
      by simp
    then have "(of_char c :: nat) = 89"
      using True by (simp add: of_char_of)
    then have "(of_char c :: nat) = of_char CHR ''Y''"
      by simp
    then have "c = CHR ''Y''" by (simp only: of_char_eq_iff)
    then show ?thesis by simp
  next
    case False
    then have "lower_char c = c"
      unfolding lower_char_def by (rule if_not_P)
    then show ?thesis using a by simp
  qed
next
  have "lower_char CHR ''y'' = CHR ''y''" and "lower_char CHR ''Y'' = CHR ''y''"
    by code_simp+
  moreover assume "c = CHR ''y'' \<or> c = CHR ''Y''"
  ultimately show "lower_char c = CHR ''y''"
    by auto
qed

lemma py_lower_y: "py_lower response = ''y'' \<longleftrightarrow> response = ''y'' \<or> response = ''Y''"
  by (cases response; cases "tl response") (auto simp: py_lower_def lower_char_y)

lemma main_report:
  "audio_dir_exists w \<Longrightarrow> report (main w stdin) = map (report_line w) REQUIRED_FILES"
  by (auto simp: main_def py_input_def Let_def check_report_check
        split: option.splits sum.splits prod.splits)

lemma check_files_cong: "files w1 = files w2 \<Longrightarrow> check_files w1 = check_files w2"
proof -
  assume eq: "files w1 = files w2"
  then have "check_file w1 = check_file w2"
    by (intro ext) (simp add: check_file_def)
  then show ?thesis by (simp add: check_files_def)
qed

lemma header_lines_cong: "files w1 = files w2 \<Longrightarrow> header_lines w1 = header_lines w2"
  using check_files_cong[of w1 w2] by (simp add: header_lines_def file_audio_def)

lemma str_replace_digits:
  assumes "CHR ''.'' \<notin> set ds"
  shows "str_replace ''.wav'' '''' (ds @ ''.wav'') = ds"
  using assms
proof (induction ds)
  case Nil
  then show ?case
    by (subst str_replace.simps, simp, subst str_replace.simps, simp)
next
  case (Cons d ds)
  then show ?case
    by (subst str_replace.simps) auto
qed

lemma get_var_name_number: "get_var_name (wav_name i) = ''audio_'' @ py_str (int i)"
proof -
  have dots: "CHR ''.'' \<notin> set (py_str_nat i)" and a: "CHR ''a'' \<notin> set (py_str_nat i)"
    using py_str_nat_digits[of i] by auto
  have "py_str_nat i \<noteq> ''and''"
    using a by auto
  then show ?thesis
    using str_replace_digits[OF dots]
    by (simp add: get_var_name_def wav_name_def py_str_def Let_def)
qed

lemma get_var_name_and: "get_var_name ''and.wav'' = ''audio_and''"
  by code_simp

lemma present_count:
  "length (filter (present w) REQUIRED_FILES) = card {f \<in> set REQUIRED_FILES. present w f}"
proof -
  have "{f \<in> set REQUIRED_FILES. present w f} = {f. present w f} \<inter> set REQUIRED_FILES"
    by auto
  then show ?thesis
    using distinct_length_filter[OF REQUIRED_FILES_distinct, of "present w"] by simp
qed

lemma missing_count:
  "length (filter (present w) REQUIRED_FILES) =
     37 - card {f \<in> set REQUIRED_FILES. \<not> present w f}"
proof -
  have "{f \<in> set REQUIRED_FILES. \<not> present w f} = {f. \<not> present w f} \<inter> set REQUIRED_FILES"
    by auto
  then have "length (filter (\<lambda>f. \<not> present w f) REQUIRED_FILES) =
               card {f \<in> set REQUIRED_FILES. \<not> present w f}"
    using distinct_length_filter[OF REQUIRED_FILES_distinct, of "\<lambda>f. \<not> present w f"] by simp
  then show ?thesis
    using sum_length_filter_compl[of "present w" REQUIRED_FILES] REQUIRED_FILES_length
    by simp
qed

lemma header_contains_array:
  assumes "f \<in> set (filter (present w) REQUIRED_FILES)"
  shows "\<exists>pre post. unlines (header_lines w) =
           pre @ unlines (array_lines f (get_var_name f) (file_audio w f)) @ post"
proof -
  from assms obtain xs ys where "filter (present w) REQUIRED_FILES = xs @ f # ys"
    by (meson in_set_conv_decomp)
  then have "unlines (header_lines w) =
      (unlines (preamble_lines (check_files w))
        @ unlines (concat (map (\<lambda>f. array_lines f (get_var_name f) (file_audio w f)) xs)))
      @ unlines (array_lines f (get_var_name f) (file_audio w f))
      @ (unlines (concat (map (\<lambda>f. array_lines f (get_var_name f) (file_audio w f)) ys))
        @ unlines (table_lines (xs @ f # ys)) @ unlines [''#endif // AUDIO_DATA_H''])"
    by (simp add: header_lines_def Let_def existing_files_check unlines_append)
  then show ?thesis by blast
qed

lemma present_w_two: "filter (present w_two) REQUIRED_FILES = [''1.wav'', ''and.wav'']"
  by (simp add: REQUIRED_FILES_eq present_def w_two_def path_join_def AUDIO_DIR_def)

lemma present_w_all: "filter (present w_all) REQUIRED_FILES = REQUIRED_FILES"
  by (simp add: present_def w_all_def)

lemma present_w_three_missing: "length (filter (present w_three_missing) REQUIRED_FILES) = 34"
  by (simp add: REQUIRED_FILES_eq present_def w_three_missing_def path_join_def AUDIO_DIR_def)

lemma py_lower_examples: "py_lower ''y'' = ''y''" "py_lower ''Y'' = ''y''" "py_lower ''yes'' \<noteq> ''y''"
  "py_lower ''n'' \<noteq> ''y''"
  by (simp_all add: py_lower_y)

lemma py_str_0: "py_str 0 = ''0''"
  by code_simp

lemma emitted_rows_Nil: "emitted_rows [] = []"
  by code_simp

lemma main_accepted_output:
  assumes "audio_dir_exists w" and "py_lower response = ''y''"
  shows "output_file (final (main w (Some response))) = Some (unlines (header_lines w))"
    and "exit_status (main w (Some response)) = 0"
    and "final (main w (Some response)) = w\<lparr>output_file := Some (unlines (header_lines w))\<rparr>"
  by (simp_all add: main_accepted[OF assms])

lemma three_missing_facts:
  "\<not> present w_three_missing ''7.wav''" "\<not> present w_three_missing ''40.wav''"
  "\<not> present w_three_missing ''and.wav''"
  "''7.wav'' \<in> set REQUIRED_FILES" "''40.wav'' \<in> set REQUIRED_FILES"
  "''and.wav'' \<in> set REQUIRED_FILES"
  "card {f \<in> set REQUIRED_FILES. \<not> present w_three_missing f} = 3"
proof -
  show "\<not> present w_three_missing ''7.wav''" "\<not> present w_three_missing ''40.wav''"
    "\<not> present w_three_missing ''and.wav''"
    by (simp_all add: present_def w_three_missing_def path_join_def AUDIO_DIR_def)
  show "''7.wav'' \<in> set REQUIRED_FILES" "''40.wav'' \<in> set REQUIRED_FILES"
    "''and.wav'' \<in> set REQUIRED_FILES"
    by (simp_all add: REQUIRED_FILES_eq)
  have "length (filter (\<lambda>f. \<not> present w_three_missing f) REQUIRED_FILES) = 3"
    using sum_length_filter_compl[of "present w_three_missing" REQUIRED_FILES]
    by (simp add: present_w_three_missing REQUIRED_FILES_length)
  moreover have "{f \<in> set REQUIRED_FILES. \<not> present w_three_missing f}
                   = {f. \<not> present w_three_missing f} \<inter> set REQUIRED_FILES"
    by auto
  ultimately show "card {f \<in> set REQUIRED_FILES. \<not> present w_three_missing f} = 3"
    using distinct_length_filter[OF REQUIRED_FILES_distinct, of "\<lambda>f. \<not> present w_three_missing f"]
    by simp
qed

section \<open>The claims\<close>

text \<open>
  C1. Let the file at \<open>filepath\<close> hold at least 44 bytes. Then \<open>convert_wav_to_array\<close>
  returns (it raises nothing) the comment line, the array declaration, the rows, the
  closing brace and the length constant, where the number in the comment and the value
  of \<open><name>_len\<close> are both the decimal form of the file's size minus 44, and the rows
  hold, as their \<open>0xHH\<close> literals in order, exactly the bytes of the file from offset 44
  to its end: nothing cut and nothing added.
\<close>

theorem packed_length_and_content:
  assumes "files w filepath = Some data" and "44 \<le> length data"
  shows "convert_wav_to_array w filepath var_name =
           Inr (''// '' @ basename filepath @ '' - '' @ py_str (int (length data) - 44)
                  @ '' bytes\<newline>''
                @ ''const uint8_t '' @ var_name @ ''[] PROGMEM = {\<newline>''
                @ emitted_rows (drop 44 data)
                @ ''};\<newline>''
                @ ''const uint32_t '' @ var_name @ ''_len = ''
                  @ py_str (int (length data) - 44) @ '';\<newline>\<newline>'')
         \<and> decimal_value (py_str (int (length data) - 44)) = Some (length data - 44)
         \<and> hex_literals (emitted_rows (drop 44 data)) = drop 44 data"
proof -
  have len: "int (length (drop 44 data)) = int (length data) - 44"
    using assms(2) by simp
  show ?thesis
    using convert_wav_to_array_text[OF assms(1), of var_name]
          decimal_value_py_str[of "length (drop 44 data)"]
    unfolding len by (simp add: hex_literals_emitted_rows)
qed

theorem packed_length_and_content_witness:
  "files w_scenario ''audio_files/100.wav'' = Some (replicate 44 0 @ replicate 1000 0x80)
   \<and> 44 \<le> length (replicate 44 0 @ replicate 1000 (0x80 :: byte))
   \<and> convert_wav_to_array w_scenario ''audio_files/100.wav'' ''audio_100'' =
       Inr (''// 100.wav - 1000 bytes\<newline>'' @
            ''const uint8_t audio_100[] PROGMEM = {\<newline>'' @
            emitted_rows (replicate 1000 0x80) @
            ''};\<newline>'' @
            ''const uint32_t audio_100_len = 1000;\<newline>\<newline>'')
   \<and> decimal_value ''1000'' = Some 1000
   \<and> hex_literals (emitted_rows (replicate 1000 0x80)) = replicate 1000 0x80"
proof -
  have f: "files w_scenario ''audio_files/100.wav'' = Some (replicate 44 0 @ replicate 1000 0x80)"
    by (simp add: w_scenario_def)
  have l: "44 \<le> length (replicate 44 0 @ replicate 1000 (0x80 :: byte))"
    by simp
  have s: "py_str 1000 = ''1000''"
    by code_simp
  have b: "basename ''audio_files/100.wav'' = ''100.wav''"
    by code_simp
  show ?thesis
    using packed_length_and_content[OF f l, of "''audio_100''"] f
    by (simp add: s b)
qed

text \<open>
  C2, with the number of required files as the script has it. When the audio directory
  exists and the prompt is answered \<open>y\<close>, the header written declares as
  \<open>audioFileCount\<close> the number of entries of its lookup table, and that is the number of
  required files that exist, whichever of the 37 they are; \<open>REQUIRED_FILES\<close> lists 37
  names.
\<close>

theorem count_equals_entries_written:
  assumes "audio_dir_exists w" and "py_lower response = ''y''"
  shows "\<exists>h. output_file (final (main w (Some response))) = Some h
           \<and> table_count h = Some (length (table_names h))
           \<and> length (table_names h) = card {f \<in> set REQUIRED_FILES. present w f}
           \<and> length REQUIRED_FILES = 37"
  using main_accepted_output(1)[OF assms]
  by (simp add: table_count_header table_names_header present_count REQUIRED_FILES_length)

theorem count_equals_entries_written_witness:
  "audio_dir_exists w_two \<and> py_lower ''y'' = ''y''
   \<and> (\<exists>h. output_file (final (main w_two (Some ''y''))) = Some h
           \<and> table_count h = Some 2 \<and> length (table_names h) = 2)"
proof -
  have d: "audio_dir_exists w_two" by (simp add: w_two_def)
  have a: "py_lower ''y'' = ''y''" by (simp add: py_lower_y)
  have two: "card {f \<in> set REQUIRED_FILES. present w_two f} = 2"
    using present_count[of w_two] by (simp add: present_w_two)
  show ?thesis
    using count_equals_entries_written[OF d a] d a two by auto
qed

text \<open>
  The list of required files has 37 names, not 35: with all of them on disk the table has
  37 entries and the count constant is 37.
\<close>

theorem required_files_are_37_not_35:
  "length REQUIRED_FILES = 37
   \<and> (\<exists>h. output_file (final (main w_all (Some ''y''))) = Some h
           \<and> table_count h = Some 37 \<and> length (table_names h) = 37)"
proof -
  have d: "audio_dir_exists w_all" by (simp add: w_all_def)
  have a: "py_lower ''y'' = ''y''" by (simp add: py_lower_y)
  show ?thesis
    using main_accepted_output(1)[OF d a]
    by (simp add: table_count_header table_names_header present_w_all REQUIRED_FILES_length)
qed

text \<open>
  C3. The names of the table entries, in the order they stand in the written header, are
  the required files that exist in the order of \<open>REQUIRED_FILES\<close>, which is 1 to 9, 10
  to 19, 20 to 90 by tens, 100 to 900 by hundreds, then \<open>and\<close>. The script never lists
  the directory: the order depends on nothing but which of the paths exist.
\<close>

theorem table_order_canonical:
  assumes "audio_dir_exists w" and "py_lower response = ''y''"
  shows "\<exists>h. output_file (final (main w (Some response))) = Some h
           \<and> table_names h = filter (present w) REQUIRED_FILES
           \<and> subseq (table_names h) REQUIRED_FILES
           \<and> REQUIRED_FILES =
               [''1.wav'', ''2.wav'', ''3.wav'', ''4.wav'', ''5.wav'', ''6.wav'', ''7.wav'',
                ''8.wav'', ''9.wav'',
                ''10.wav'', ''11.wav'', ''12.wav'', ''13.wav'', ''14.wav'', ''15.wav'',
                ''16.wav'', ''17.wav'', ''18.wav'', ''19.wav'',
                ''20.wav'', ''30.wav'', ''40.wav'', ''50.wav'', ''60.wav'', ''70.wav'',
                ''80.wav'', ''90.wav'',
                ''100.wav'', ''200.wav'', ''300.wav'', ''400.wav'', ''500.wav'', ''600.wav'',
                ''700.wav'', ''800.wav'', ''900.wav'',
                ''and.wav'']"
proof -
  have "table_names (unlines (header_lines w)) = filter (present w) REQUIRED_FILES"
    by (rule table_names_header)
  moreover have "subseq (filter (present w) REQUIRED_FILES) REQUIRED_FILES"
    by (rule subseq_filter_left)
  ultimately show ?thesis
    using main_accepted_output(1)[OF assms] REQUIRED_FILES_eq by simp
qed

theorem table_order_canonical_witness:
  "audio_dir_exists w_two \<and> py_lower ''Y'' = ''y''
   \<and> (\<exists>h. output_file (final (main w_two (Some ''Y''))) = Some h
           \<and> table_names h = [''1.wav'', ''and.wav''])"
proof -
  have d: "audio_dir_exists w_two" by (simp add: w_two_def)
  have a: "py_lower ''Y'' = ''y''" by (simp add: py_lower_y)
  show ?thesis
    using table_order_canonical[OF d a] d a by (auto simp: present_w_two)
qed

text \<open>
  C4, as the script behaves. A file shorter than 44 bytes is no error to
  \<open>convert_wav_to_array\<close>: it returns an array without rows and a length constant of 0.
\<close>

theorem short_file_packs_empty:
  assumes "files w filepath = Some data" and "length data < 44"
  shows "convert_wav_to_array w filepath var_name =
           Inr (''// '' @ basename filepath @ '' - 0 bytes\<newline>''
                @ ''const uint8_t '' @ var_name @ ''[] PROGMEM = {\<newline>''
                @ ''};\<newline>''
                @ ''const uint32_t '' @ var_name @ ''_len = 0;\<newline>\<newline>'')"
  using convert_wav_to_array_text[OF assms(1), of var_name] assms(2)
  by (simp add: py_str_0 emitted_rows_Nil)

theorem short_file_packs_empty_witness:
  "files w_short ''audio_files/1.wav'' = Some [0x52, 0x49, 0x46]
   \<and> length [0x52, 0x49, 0x46 :: byte] < 44
   \<and> convert_wav_to_array w_short ''audio_files/1.wav'' ''audio_1'' =
       Inr (''// 1.wav - 0 bytes\<newline>'' @
            ''const uint8_t audio_1[] PROGMEM = {\<newline>'' @
            ''};\<newline>'' @
            ''const uint32_t audio_1_len = 0;\<newline>\<newline>'')"
proof -
  have f: "files w_short ''audio_files/1.wav'' = Some [0x52, 0x49, 0x46]"
    by (simp add: w_short_def)
  have l: "length [0x52, 0x49, 0x46 :: byte] < 44"
    by simp
  have b: "basename ''audio_files/1.wav'' = ''1.wav''"
    by code_simp
  show ?thesis
    using short_file_packs_empty[OF f l, of "''audio_1''"] f by (simp add: b)
qed

text \<open>
  A file of three bytes is packed without any error, and a run over it ends with exit
  status 0.
\<close>

theorem short_file_is_not_an_error:
  "convert_wav_to_array w_short ''audio_files/1.wav'' ''audio_1'' =
     Inr (''// 1.wav - 0 bytes\<newline>'' @
          ''const uint8_t audio_1[] PROGMEM = {\<newline>'' @
          ''};\<newline>'' @
          ''const uint32_t audio_1_len = 0;\<newline>\<newline>'')
   \<and> exit_status (main w_short (Some ''y'')) = 0"
proof -
  have d: "audio_dir_exists w_short" by (simp add: w_short_def)
  have a: "py_lower ''y'' = ''y''" by (simp add: py_lower_y)
  have "convert_wav_to_array w_short ''audio_files/1.wav'' ''audio_1'' =
     Inr (''// 1.wav - 0 bytes\<newline>'' @
          ''const uint8_t audio_1[] PROGMEM = {\<newline>'' @
          ''};\<newline>'' @
          ''const uint32_t audio_1_len = 0;\<newline>\<newline>'')"
    by code_simp
  then show ?thesis
    using main_accepted_output(2)[OF d a] by simp
qed

text \<open>
  C5, with the number of required files as the script has it. When the audio directory
  exists, every required file that is absent has its own line \<open>missing_line f\<close> in the
  report of the check loop, whatever is answered at the prompt; and when the prompt is
  answered \<open>y\<close>, no absent file has an entry in the table of the written header, whose
  number of entries is 37 minus the number of absent files: 34 when three are absent.
\<close>

theorem missing_files_excluded_and_reported:
  assumes "audio_dir_exists w"
  shows "(\<forall>f \<in> set REQUIRED_FILES.
            \<not> present w f \<longrightarrow> missing_line f \<in> set (report (main w stdin)))
         \<and> (py_lower response = ''y'' \<longrightarrow>
              (\<exists>h. output_file (final (main w (Some response))) = Some h
                 \<and> (\<forall>f \<in> set REQUIRED_FILES. \<not> present w f \<longrightarrow> f \<notin> set (table_names h))
                 \<and> length (table_names h) =
                     37 - card {f \<in> set REQUIRED_FILES. \<not> present w f}
                 \<and> (card {f \<in> set REQUIRED_FILES. \<not> present w f} = 3
                      \<longrightarrow> length (table_names h) = 34)))"
proof (intro conjI ballI impI)
  fix f
  assume "f \<in> set REQUIRED_FILES" and "\<not> present w f"
  then have "report_line w f \<in> set (map (report_line w) REQUIRED_FILES)"
    and "report_line w f = missing_line f"
    by (simp_all add: report_line_def)
  then show "missing_line f \<in> set (report (main w stdin))"
    by (simp only: main_report[OF assms])
next
  assume a: "py_lower response = ''y''"
  have "length (filter (present w) REQUIRED_FILES) =
          37 - card {f \<in> set REQUIRED_FILES. \<not> present w f}"
    by (rule missing_count)
  then show "\<exists>h. output_file (final (main w (Some response))) = Some h
      \<and> (\<forall>f \<in> set REQUIRED_FILES. \<not> present w f \<longrightarrow> f \<notin> set (table_names h))
      \<and> length (table_names h) = 37 - card {f \<in> set REQUIRED_FILES. \<not> present w f}
      \<and> (card {f \<in> set REQUIRED_FILES. \<not> present w f} = 3 \<longrightarrow> length (table_names h) = 34)"
    using main_accepted_output(1)[OF assms a] by (simp add: table_names_header)
qed

theorem missing_files_excluded_and_reported_witness:
  "audio_dir_exists w_three_missing \<and> py_lower ''y'' = ''y''
   \<and> card {f \<in> set REQUIRED_FILES. \<not> present w_three_missing f} = 3
   \<and> missing_line ''7.wav'' \<in> set (report (main w_three_missing (Some ''y'')))
   \<and> missing_line ''40.wav'' \<in> set (report (main w_three_missing (Some ''y'')))
   \<and> missing_line ''and.wav'' \<in> set (report (main w_three_missing (Some ''y'')))
   \<and> (\<exists>h. output_file (final (main w_three_missing (Some ''y''))) = Some h
          \<and> ''7.wav'' \<notin> set (table_names h) \<and> ''40.wav'' \<notin> set (table_names h)
          \<and> ''and.wav'' \<notin> set (table_names h) \<and> length (table_names h) = 34)"
proof -
  have d: "audio_dir_exists w_three_missing" by (simp add: w_three_missing_def)
  have a: "py_lower ''y'' = ''y''" by (simp add: py_lower_y)
  note t = missing_files_excluded_and_reported[OF d, of "Some ''y''" "''y''"]
  from t a obtain h where h: "output_file (final (main w_three_missing (Some ''y''))) = Some h"
    "\<forall>f \<in> set REQUIRED_FILES. \<not> present w_three_missing f \<longrightarrow> f \<notin> set (table_names h)"
    "card {f \<in> set REQUIRED_FILES. \<not> present w_three_missing f} = 3
       \<longrightarrow> length (table_names h) = 34"
    by blast
  have "missing_line ''7.wav'' \<in> set (report (main w_three_missing (Some ''y'')))"
    "missing_line ''40.wav'' \<in> set (report (main w_three_missing (Some ''y'')))"
    "missing_line ''and.wav'' \<in> set (report (main w_three_missing (Some ''y'')))"
    using t three_missing_facts by blast+
  moreover have "''7.wav'' \<notin> set (table_names h)" "''40.wav'' \<notin> set (table_names h)"
    "''and.wav'' \<notin> set (table_names h)" "length (table_names h) = 34"
    using h three_missing_facts by blast+
  ultimately show ?thesis
    using d a h(1) three_missing_facts(7) by blast
qed

text \<open>With three required files absent the table has 34 entries, not 32.\<close>

theorem three_missing_leaves_34_not_32:
  "card {f \<in> set REQUIRED_FILES. \<not> present w_three_missing f} = 3
   \<and> (\<exists>h. output_file (final (main w_three_missing (Some ''y''))) = Some h
          \<and> length (table_names h) = 34 \<and> length (table_names h) \<noteq> 32)"
proof -
  have d: "audio_dir_exists w_three_missing" by (simp add: w_three_missing_def)
  have a: "py_lower ''y'' = ''y''" by (simp add: py_lower_y)
  show ?thesis
    using main_accepted_output(1)[OF d a] three_missing_facts(7)
    by (simp add: table_names_header present_w_three_missing)
qed

text \<open>
  C6. For a file of exactly 44 bytes \<open>convert_wav_to_array\<close> returns normally: the payload
  is empty, the array has no rows and the length constant is 0.
\<close>

theorem header_only_file_packs_empty:
  assumes "files w filepath = Some data" and "length data = 44"
  shows "convert_wav_to_array w filepath var_name =
           Inr (''// '' @ basename filepath @ '' - 0 bytes\<newline>''
                @ ''const uint8_t '' @ var_name @ ''[] PROGMEM = {\<newline>''
                @ ''};\<newline>''
                @ ''const uint32_t '' @ var_name @ ''_len = 0;\<newline>\<newline>'')
         \<and> drop 44 data = [] \<and> emitted_rows (drop 44 data) = []"
  using convert_wav_to_array_text[OF assms(1), of var_name] assms(2)
  by (simp add: py_str_0 emitted_rows_Nil)

theorem header_only_file_packs_empty_witness:
  "files w_two ''audio_files/and.wav'' = Some (replicate 44 0)
   \<and> length (replicate 44 (0 :: byte)) = 44
   \<and> convert_wav_to_array w_two ''audio_files/and.wav'' ''audio_and'' =
       Inr (''// and.wav - 0 bytes\<newline>'' @
            ''const uint8_t audio_and[] PROGMEM = {\<newline>'' @
            ''};\<newline>'' @
            ''const uint32_t audio_and_len = 0;\<newline>\<newline>'')"
proof -
  have f: "files w_two ''audio_files/and.wav'' = Some (replicate 44 0)"
    by (simp add: w_two_def)
  have l: "length (replicate 44 (0 :: byte)) = 44"
    by simp
  have b: "basename ''audio_files/and.wav'' = ''and.wav''"
    by code_simp
  show ?thesis
    using header_only_file_packs_empty[OF f l, of "''audio_and''"] f by (simp add: b)
qed

text \<open>
  C7, with the number of required files as the script has it. In the written header, the
  identifiers of the table entries are \<open>get_var_name\<close> of their names and are pairwise
  distinct; for every entry the header holds the array of that file, whose length
  constant is the number of bytes of its rows. The identifiers of the 37 required files
  are pairwise distinct; a numeric name \<open>N.wav\<close> gives \<open>audio_N\<close> and \<open>and.wav\<close> gives
  \<open>audio_and\<close>.
\<close>

theorem packed_index_invariant:
  assumes "audio_dir_exists w" and "py_lower response = ''y''"
  shows "\<exists>h. output_file (final (main w (Some response))) = Some h
           \<and> table_vars h = map get_var_name (table_names h)
           \<and> distinct (table_vars h)
           \<and> (\<forall>f \<in> set (table_names h). \<exists>data pre post.
                 files w (path_join AUDIO_DIR f) = Some data
                 \<and> h = pre
                     @ (''// '' @ f @ '' - '' @ py_str (int (length (drop 44 data)))
                          @ '' bytes\<newline>''
                        @ ''const uint8_t '' @ get_var_name f @ ''[] PROGMEM = {\<newline>''
                        @ emitted_rows (drop 44 data)
                        @ ''};\<newline>''
                        @ ''const uint32_t '' @ get_var_name f @ ''_len = ''
                          @ py_str (int (length (hex_literals (emitted_rows (drop 44 data)))))
                          @ '';\<newline>\<newline>'')
                     @ post)
           \<and> distinct (map get_var_name REQUIRED_FILES)
           \<and> length (map get_var_name REQUIRED_FILES) = 37
           \<and> (\<forall>i. get_var_name (wav_name i) = ''audio_'' @ py_str (int i))
           \<and> get_var_name ''and.wav'' = ''audio_and''"
proof -
  let ?h = "unlines (header_lines w)"
  let ?ex = "filter (present w) REQUIRED_FILES"
  have vars: "table_vars ?h = map get_var_name (table_names ?h)"
    by (simp add: table_vars_header table_names_header)
  have dist: "distinct (table_vars ?h)"
    unfolding table_vars_header
    using var_names_distinct by (simp add: distinct_map_filter)
  have arrays: "\<exists>data pre post.
                 files w (path_join AUDIO_DIR f) = Some data
                 \<and> ?h = pre
                     @ (''// '' @ f @ '' - '' @ py_str (int (length (drop 44 data)))
                          @ '' bytes\<newline>''
                        @ ''const uint8_t '' @ get_var_name f @ ''[] PROGMEM = {\<newline>''
                        @ emitted_rows (drop 44 data)
                        @ ''};\<newline>''
                        @ ''const uint32_t '' @ get_var_name f @ ''_len = ''
                          @ py_str (int (length (hex_literals (emitted_rows (drop 44 data)))))
                          @ '';\<newline>\<newline>'')
                     @ post" if f: "f \<in> set (table_names ?h)" for f
  proof -
    from f have fex: "f \<in> set ?ex"
      by (simp only: table_names_header)
    then obtain data where data: "files w (path_join AUDIO_DIR f) = Some data"
      by (auto simp: present_def)
    from header_contains_array[OF fex] obtain pre post where
      hp: "?h = pre @ unlines (array_lines f (get_var_name f) (file_audio w f)) @ post"
      by blast
    have "unlines (array_lines f (get_var_name f) (file_audio w f)) =
            ''// '' @ f @ '' - '' @ py_str (int (length (drop 44 data))) @ '' bytes\<newline>''
            @ ''const uint8_t '' @ get_var_name f @ ''[] PROGMEM = {\<newline>''
            @ emitted_rows (drop 44 data)
            @ ''};\<newline>''
            @ ''const uint32_t '' @ get_var_name f @ ''_len = ''
              @ py_str (int (length (hex_literals (emitted_rows (drop 44 data)))))
              @ '';\<newline>\<newline>''"
      by (simp add: array_lines_def file_audio_def data unlines_append unlines_Cons unlines_Nil
            emitted_rows_lines[symmetric] hex_literals_emitted_rows)
    with hp data show ?thesis by metis
  qed
  show ?thesis
    using main_accepted_output(1)[OF assms] vars dist arrays var_names_distinct
          get_var_name_number get_var_name_and REQUIRED_FILES_length
    by (intro exI[of _ ?h]) simp
qed

theorem packed_index_invariant_witness:
  "audio_dir_exists w_two \<and> py_lower ''y'' = ''y''
   \<and> (\<exists>h. output_file (final (main w_two (Some ''y''))) = Some h
          \<and> table_names h = [''1.wav'', ''and.wav'']
          \<and> table_vars h = [''audio_1'', ''audio_and'']
          \<and> distinct (table_vars h))"
proof -
  have d: "audio_dir_exists w_two" by (simp add: w_two_def)
  have a: "py_lower ''y'' = ''y''" by (simp add: py_lower_y)
  from packed_index_invariant[OF d a] obtain h where
    h: "output_file (final (main w_two (Some ''y''))) = Some h"
       "table_vars h = map get_var_name (table_names h)" "distinct (table_vars h)"
    by blast
  from h(1) have "h = unlines (header_lines w_two)"
    using main_accepted_output(1)[OF d a] by simp
  then have n: "table_names h = [''1.wav'', ''and.wav'']"
    by (simp add: table_names_header present_w_two)
  have v: "map get_var_name [''1.wav'', ''and.wav''] = [''audio_1'', ''audio_and'']"
    by code_simp
  show ?thesis
    using d a h n v by auto
qed

text \<open>The required files give 37 different identifiers, not 35.\<close>

theorem identifiers_are_37_not_35:
  "card (set (map get_var_name REQUIRED_FILES)) = 37
   \<and> card (set (map get_var_name REQUIRED_FILES)) \<noteq> 35"
  using distinct_card[OF var_names_distinct] by (simp add: REQUIRED_FILES_length)

text \<open>
  C8. The header written is a function of the input files alone: a second accepted run
  on the world the first one left writes the same text again and leaves that world as
  it is, and any world with the same input files gets the same header.
\<close>

theorem repacking_is_idempotent:
  assumes "audio_dir_exists w" and "py_lower r1 = ''y''" and "py_lower r2 = ''y''"
  shows "(\<exists>h. output_file (final (main w (Some r1))) = Some h
             \<and> output_file (final (main (final (main w (Some r1))) (Some r2))) = Some h)
         \<and> final (main (final (main w (Some r1))) (Some r2)) = final (main w (Some r1))
         \<and> (\<forall>w'. audio_dir_exists w' \<and> files w' = files w \<longrightarrow>
               output_file (final (main w' (Some r2))) = output_file (final (main w (Some r1))))"
proof -
  let ?w1 = "final (main w (Some r1))"
  have w1: "?w1 = w\<lparr>output_file := Some (unlines (header_lines w))\<rparr>"
    by (rule main_accepted_output(3)[OF assms(1,2)])
  have d1: "audio_dir_exists ?w1" and f1: "files ?w1 = files w"
    using assms(1) by (simp_all add: w1)
  have same: "header_lines (w\<lparr>output_file := x\<rparr>) = header_lines w" for x
    by (rule header_lines_cong) simp
  have second: "final (main ?w1 (Some r2)) = ?w1"
    using main_accepted_output(3)[OF d1 assms(3)] by (simp add: w1 same)
  have other: "output_file (final (main w' (Some r2))) = output_file ?w1"
    if "audio_dir_exists w' \<and> files w' = files w" for w'
    using that main_accepted_output(1)[of w' r2] assms(3) header_lines_cong[of w' w]
    by (simp add: w1)
  show ?thesis
    using second other by (simp add: w1)
qed

theorem repacking_is_idempotent_witness:
  "audio_dir_exists w_two \<and> py_lower ''y'' = ''y'' \<and> py_lower ''Y'' = ''y''
   \<and> final (main (final (main w_two (Some ''y''))) (Some ''Y'')) = final (main w_two (Some ''y''))"
proof -
  have d: "audio_dir_exists w_two" by (simp add: w_two_def)
  have a: "py_lower ''y'' = ''y''" and b: "py_lower ''Y'' = ''y''"
    by (simp_all add: py_lower_y)
  show ?thesis
    using repacking_is_idempotent[OF d a b] d a b by blast
qed

text \<open>
  C9. A response that fails the test \<open>response.lower() == 'y'\<close> declines: the run ends
  with exit status 0 and the world unchanged, so the output file is neither created nor
  modified. Without the audio directory the run ends with exit status 1, whatever
  standard input holds, and the world is unchanged as well.
\<close>

theorem cancel_exits_0_missing_dir_exits_1:
  "(audio_dir_exists w \<and> py_lower response \<noteq> ''y'' \<longrightarrow>
      exit_status (main w (Some response)) = 0 \<and> final (main w (Some response)) = w)
   \<and> (\<not> audio_dir_exists w \<longrightarrow>
      exit_status (main w stdin) = 1 \<and> exit_status (main w stdin) \<noteq> 0
      \<and> final (main w stdin) = w)"
  by (simp add: main_def py_input_def Let_def)

theorem cancel_exits_0_missing_dir_exits_1_witness:
  "audio_dir_exists w_two \<and> py_lower ''n'' \<noteq> ''y''
   \<and> exit_status (main w_two (Some ''n'')) = 0 \<and> final (main w_two (Some ''n'')) = w_two
   \<and> \<not> audio_dir_exists w_no_dir
   \<and> exit_status (main w_no_dir (Some ''y'')) = 1 \<and> final (main w_no_dir (Some ''y'')) = w_no_dir"
proof -
  have d: "audio_dir_exists w_two" by (simp add: w_two_def)
  have a: "py_lower ''n'' \<noteq> ''y''" by (simp add: py_lower_y)
  have n: "\<not> audio_dir_exists w_no_dir" by (simp add: w_no_dir_def)
  show ?thesis
    using cancel_exits_0_missing_dir_exits_1[of w_two "''n''" None]
          cancel_exits_0_missing_dir_exits_1[of w_no_dir "''y''" "Some ''y''"] d a n
    by blast
qed

text \<open>
  C10. With the audio directory in place, the responses \<open>y\<close> and \<open>Y\<close>, and no others, pass
  the test \<open>response.lower() != 'y'\<close>: they end with the generated header written and
  exit status 0. Every other response, \<open>yes\<close> among them, ends with exit status 0 and the
  world unchanged.
\<close>

theorem only_y_proceeds:
  assumes "audio_dir_exists w"
  shows "(response = ''y'' \<or> response = ''Y'' \<longrightarrow>
            exit_status (main w (Some response)) = 0
            \<and> (\<exists>h. final (main w (Some response)) = w\<lparr>output_file := Some h\<rparr>
                   \<and> take 44 h = ''// Auto-generated audio data from WAV files\<newline>''))
         \<and> (response \<noteq> ''y'' \<and> response \<noteq> ''Y'' \<longrightarrow>
            exit_status (main w (Some response)) = 0 \<and> final (main w (Some response)) = w)
         \<and> (py_lower response = ''y'' \<longleftrightarrow> response = ''y'' \<or> response = ''Y'')"
proof (intro conjI impI)
  assume "response = ''y'' \<or> response = ''Y''"
  then have a: "py_lower response = ''y''"
    by (simp add: py_lower_y)
  show "exit_status (main w (Some response)) = 0"
    by (rule main_accepted_output(2)[OF assms a])
  have "take 44 (unlines (header_lines w)) = ''// Auto-generated audio data from WAV files\<newline>''"
    by (simp add: header_lines_def Let_def preamble_lines_def unlines_Cons)
  then show "\<exists>h. final (main w (Some response)) = w\<lparr>output_file := Some h\<rparr>
                 \<and> take 44 h = ''// Auto-generated audio data from WAV files\<newline>''"
    using main_accepted_output(3)[OF assms a] by blast
next
  assume "response \<noteq> ''y'' \<and> response \<noteq> ''Y''"
  then have a: "py_lower response \<noteq> ''y''"
    by (simp add: py_lower_y)
  show "exit_status (main w (Some response)) = 0" "final (main w (Some response)) = w"
    by (simp_all add: main_declined[OF assms a])
next
  show "py_lower response = ''y'' \<longleftrightarrow> response = ''y'' \<or> response = ''Y''"
    by (rule py_lower_y)
qed

theorem only_y_proceeds_witness:
  "audio_dir_exists w_two
   \<and> exit_status (main w_two (Some ''Y'')) = 0
   \<and> (\<exists>h. final (main w_two (Some ''Y'')) = w_two\<lparr>output_file := Some h\<rparr>)
   \<and> ''yes'' \<noteq> ''y'' \<and> ''yes'' \<noteq> ''Y''
   \<and> exit_status (main w_two (Some ''yes'')) = 0 \<and> final (main w_two (Some ''yes'')) = w_two"
proof -
  have d: "audio_dir_exists w_two" by (simp add: w_two_def)
  have y: "''yes'' \<noteq> ''y'' \<and> ''yes'' \<noteq> ''Y''" by simp
  show ?thesis
    using only_y_proceeds[OF d, of "''Y''"] only_y_proceeds[OF d, of "''yes''"] d y
    by blast
qed

end
